theory Spec2Isabelle
  imports Main "HOL-Library.Char_ord" "HOL-Library.List_Lexorder" "HOL-Library.Product_Lexorder"
begin

section \<open>The patent citation dashboard (patent_dashboard_dash.py)\<close>

text \<open>
  The dashboard loads one table with pandas, derives the list of selectable companies
  from it, and recomputes a summary and one of three charts on every change of the
  selection. The embedding below follows the functions of the source one by one.
  A pandas frame is a list of column labels and a list of rows; a boolean mask is
  \<open>filter\<close>; a \<open>for\<close> loop is a recursion over the list it iterates, with the
  value it appends to as an accumulator; an exception is the \<open>Inl\<close> side of a sum.
  Counts and years are integers (\<open>int\<close>); pandas holds them in 64 bits, and sums
  beyond that range are not modelled. The presentation attributes of a plotly trace
  and of the figure layout (mode, line width, hover template, titles, colours) carry no
  data and are left out.
\<close>

subsection \<open>Data\<close>

datatype error = FileNotFoundError | ParserError | KeyError | IndexError | ValueError

text \<open>
  One row of the table. The five named columns are fields; every other column (one per
  calendar year, labelled by the year's decimal string) is an entry of \<open>year_cells\<close>.
  A label without an entry is an empty cell (NaN), which pandas' \<open>sum\<close> skips.
\<close>

record row =
  assignee_id :: string
  raw_assignee_organization :: string
  cited_year :: int
  patents_assigned :: int
  total_citations :: int
  year_cells :: "(string \<times> int) list"

record dataframe =
  columns :: "string list"
  rows :: "row list"

text \<open>\<open>pd.DataFrame()\<close>: no column and no row.\<close>

definition empty_frame :: dataframe where
  "empty_frame = \<lparr>columns = [], rows = []\<rparr>"

text \<open>A plotly Scatter trace: its name and its x and y data.\<close>

record trace =
  trace_name :: string
  trace_x :: "int list"
  trace_y :: "int list"

subsection \<open>Python and pandas primitives\<close>

text \<open>
  \<open>str\<close> of an integer: decimal digits, a leading minus sign when negative.
  \<open>digit_char\<close> is applied to numbers below ten only.
\<close>

definition digit_char :: "nat \<Rightarrow> char" where
  "digit_char d = ''0123456789'' ! d"

function str_nat :: "nat \<Rightarrow> string" where
  "str_nat n = (if n < 10 then [digit_char n] else str_nat (n div 10) @ [digit_char (n mod 10)])"
  by pat_completeness auto
termination
  by (relation "measure (\<lambda>n. n)") auto

definition py_str :: "int \<Rightarrow> string" where
  "py_str i = (if i < 0 then CHR ''-'' # str_nat (nat (- i)) else str_nat (nat i))"

text \<open>
  \<open>int\<close> of a string, on the decimal forms that \<open>str\<close> produces; any other string is
  a ValueError here (Python's \<open>int\<close> also accepts a plus sign, blanks and underscores,
  which the program never passes to it).
\<close>

definition digit_val :: "char \<Rightarrow> nat option" where
  "digit_val c =
     map_of [(CHR ''0'', 0), (CHR ''1'', 1), (CHR ''2'', 2), (CHR ''3'', 3), (CHR ''4'', 4),
             (CHR ''5'', 5), (CHR ''6'', 6), (CHR ''7'', 7), (CHR ''8'', 8), (CHR ''9'', 9)] c"

fun parse_nat :: "nat \<Rightarrow> string \<Rightarrow> nat option" where
  "parse_nat acc [] = Some acc"
| "parse_nat acc (c # cs) =
     (case digit_val c of None \<Rightarrow> None | Some d \<Rightarrow> parse_nat (10 * acc + d) cs)"

definition py_int :: "string \<Rightarrow> error + int" where
  "py_int s =
     (case s of
        [] \<Rightarrow> Inl ValueError
      | c # cs \<Rightarrow>
          if c = CHR ''-'' then
            (if cs = [] then Inl ValueError
             else case parse_nat 0 cs of None \<Rightarrow> Inl ValueError | Some n \<Rightarrow> Inr (- int n))
          else (case parse_nat 0 s of None \<Rightarrow> Inl ValueError | Some n \<Rightarrow> Inr (int n)))"

text \<open>\<open>range(a, b)\<close> over integers.\<close>

definition py_range :: "int \<Rightarrow> int \<Rightarrow> int list" where
  "py_range a b = [a..b - 1]"

text \<open>\<open>Series.unique()\<close>: the distinct values in order of first appearance.\<close>

fun unique_from :: "'a list \<Rightarrow> 'a list \<Rightarrow> 'a list" where
  "unique_from seen [] = []"
| "unique_from seen (x # xs) =
     (if x \<in> set seen then unique_from seen xs else x # unique_from (x # seen) xs)"

definition unique :: "'a list \<Rightarrow> 'a list" where
  "unique xs = unique_from [] xs"

text \<open>\<open>.iloc[0]\<close>: the first element, IndexError on an empty series.\<close>

definition iloc0 :: "'a list \<Rightarrow> error + 'a" where
  "iloc0 xs = (case xs of [] \<Rightarrow> Inl IndexError | x # _ \<Rightarrow> Inr x)"

text \<open>
  \<open>frame[label].sum()\<close> for a year column: the sum of the cells that are present.
\<close>

definition cell :: "row \<Rightarrow> string \<Rightarrow> int" where
  "cell r label = (case map_of (year_cells r) label of None \<Rightarrow> 0 | Some v \<Rightarrow> v)"

definition column_sum :: "string \<Rightarrow> row list \<Rightarrow> int" where
  "column_sum label rs = sum_list (map (\<lambda>r. cell r label) rs)"

text \<open>
  \<open>groupby(key)[col].sum().reset_index()\<close>: one entry per distinct key, the keys in
  ascending order, each with the sum of the column over the rows of that key.
\<close>

definition groupby_sum :: "(row \<Rightarrow> int) \<Rightarrow> (row \<Rightarrow> int) \<Rightarrow> row list \<Rightarrow> (int \<times> int) list" where
  "groupby_sum key col rs =
     map (\<lambda>k. (k, sum_list (map col (filter (\<lambda>r. key r = k) rs)))) (sort (remdups (map key rs)))"

text \<open>\<open>sort_values(column)\<close>, ascending.\<close>

definition sort_values :: "('a \<Rightarrow> 'k::linorder) \<Rightarrow> 'a list \<Rightarrow> 'a list" where
  "sort_values k xs = sort_key k xs"

subsection \<open>The company list\<close>

text \<open>
  \<open>get_company_list\<close>: \<open>groupby(['assignee_id', 'raw_assignee_organization']).size()\<close>
  has one row per distinct pair, the pairs in ascending order; the label is the
  organization name followed by the first eight characters of the identifier in
  parentheses, with three dots; the result is sorted by the label.
\<close>

definition group_keys :: "row list \<Rightarrow> (string \<times> string) list" where
  "group_keys rs = sort (remdups (map (\<lambda>r. (assignee_id r, raw_assignee_organization r)) rs))"

definition display_name :: "string \<Rightarrow> string \<Rightarrow> string" where
  "display_name organization aid = organization @ '' ('' @ take 8 aid @ ''...)''"

definition get_company_list :: "dataframe \<Rightarrow> (string \<times> string) list" where
  "get_company_list frame =
     sort_values snd (map (\<lambda>(aid, organization). (aid, display_name organization aid))
       (group_keys (rows frame)))"

definition get_company_data :: "dataframe \<Rightarrow> string \<Rightarrow> dataframe" where
  "get_company_data frame aid =
     \<lparr>columns = columns frame, rows = filter (\<lambda>r. assignee_id r = aid) (rows frame)\<rparr>"

subsection \<open>Citations to the patents of one year\<close>

text \<open>
  The inner loop of \<open>create_citations_to_year_chart\<close>: for each label of
  \<open>year_cols\<close> that is a column of the frame, one point (the year, the sum of that
  column over \<open>year_data\<close>); a label that is not a column is skipped.
\<close>

fun citations_loop ::
  "string list \<Rightarrow> row list \<Rightarrow> string list \<Rightarrow> (int \<times> int) list \<Rightarrow> error + (int \<times> int) list" where
  "citations_loop cols year_data [] citations_by_year = Inr citations_by_year"
| "citations_loop cols year_data (year_col # year_cols) citations_by_year =
     (if year_col \<in> set cols then
        (let citations_in_year = column_sum year_col year_data in
         case py_int year_col of
           Inl e \<Rightarrow> Inl e
         | Inr y \<Rightarrow>
             citations_loop cols year_data year_cols (citations_by_year @ [(y, citations_in_year)]))
      else citations_loop cols year_data year_cols citations_by_year)"

text \<open>
  The outer loop, over the distinct identifiers: a company without a row of the selected
  year adds no trace, and neither does one whose list of points stays empty.
\<close>

fun citations_to_year_loop ::
  "dataframe \<Rightarrow> int \<Rightarrow> string list \<Rightarrow> trace list \<Rightarrow> error + trace list" where
  "citations_to_year_loop df_companies selected_year [] fig = Inr fig"
| "citations_to_year_loop df_companies selected_year (aid # aids) fig =
     (let company_data = filter (\<lambda>r. assignee_id r = aid) (rows df_companies) in
      case iloc0 (map raw_assignee_organization company_data) of
        Inl e \<Rightarrow> Inl e
      | Inr company_name \<Rightarrow>
          (let year_data = filter (\<lambda>r. cited_year r = selected_year) company_data in
           if year_data \<noteq> [] then
             (let year_cols = map py_str (py_range (selected_year + 1) 2026) in
              case citations_loop (columns df_companies) year_data year_cols [] of
                Inl e \<Rightarrow> Inl e
              | Inr citations_by_year \<Rightarrow>
                  if citations_by_year \<noteq> [] then
                    citations_to_year_loop df_companies selected_year aids
                      (fig @ [\<lparr>trace_name = company_name,
                               trace_x = map fst citations_by_year,
                               trace_y = map snd citations_by_year\<rparr>])
                  else citations_to_year_loop df_companies selected_year aids fig)
           else citations_to_year_loop df_companies selected_year aids fig))"

definition create_citations_to_year_chart :: "dataframe \<Rightarrow> int \<Rightarrow> error + trace list" where
  "create_citations_to_year_chart df_companies selected_year =
     citations_to_year_loop df_companies selected_year
       (unique (map assignee_id (rows df_companies))) []"

subsection \<open>Patents assigned in one year\<close>

fun patents_in_year_loop ::
  "dataframe \<Rightarrow> int \<Rightarrow> string list \<Rightarrow> (string \<times> int) list \<Rightarrow> error + (string \<times> int) list" where
  "patents_in_year_loop df_companies selected_year [] patents_info = Inr patents_info"
| "patents_in_year_loop df_companies selected_year (aid # aids) patents_info =
     (let company_data = filter (\<lambda>r. assignee_id r = aid) (rows df_companies) in
      case iloc0 (map raw_assignee_organization company_data) of
        Inl e \<Rightarrow> Inl e
      | Inr company_name \<Rightarrow>
          (let year_data = filter (\<lambda>r. cited_year r = selected_year) company_data in
           if year_data \<noteq> [] then
             patents_in_year_loop df_companies selected_year aids
               (patents_info @ [(company_name, sum_list (map patents_assigned year_data))])
           else
             patents_in_year_loop df_companies selected_year aids
               (patents_info @ [(company_name, 0)])))"

definition get_patents_in_year :: "dataframe \<Rightarrow> int \<Rightarrow> error + (string \<times> int) list" where
  "get_patents_in_year df_companies selected_year =
     patents_in_year_loop df_companies selected_year
       (unique (map assignee_id (rows df_companies))) []"

subsection \<open>The two timelines\<close>

fun patents_timeline_loop :: "dataframe \<Rightarrow> string list \<Rightarrow> trace list \<Rightarrow> error + trace list" where
  "patents_timeline_loop df_companies [] fig = Inr fig"
| "patents_timeline_loop df_companies (aid # aids) fig =
     (let company_data = filter (\<lambda>r. assignee_id r = aid) (rows df_companies) in
      case iloc0 (map raw_assignee_organization company_data) of
        Inl e \<Rightarrow> Inl e
      | Inr company_name \<Rightarrow>
          (let patents_by_year =
                 sort_values fst (groupby_sum cited_year patents_assigned company_data) in
           patents_timeline_loop df_companies aids
             (fig @ [\<lparr>trace_name = company_name,
                      trace_x = map fst patents_by_year,
                      trace_y = map snd patents_by_year\<rparr>])))"

definition create_patents_timeline :: "dataframe \<Rightarrow> error + trace list" where
  "create_patents_timeline df_companies =
     patents_timeline_loop df_companies (unique (map assignee_id (rows df_companies))) []"

fun citations_timeline_loop :: "dataframe \<Rightarrow> string list \<Rightarrow> trace list \<Rightarrow> error + trace list" where
  "citations_timeline_loop df_companies [] fig = Inr fig"
| "citations_timeline_loop df_companies (aid # aids) fig =
     (let company_data = filter (\<lambda>r. assignee_id r = aid) (rows df_companies) in
      case iloc0 (map raw_assignee_organization company_data) of
        Inl e \<Rightarrow> Inl e
      | Inr company_name \<Rightarrow>
          (let citations_by_year =
                 sort_values fst (groupby_sum cited_year total_citations company_data) in
           citations_timeline_loop df_companies aids
             (fig @ [\<lparr>trace_name = company_name,
                      trace_x = map fst citations_by_year,
                      trace_y = map snd citations_by_year\<rparr>])))"

definition create_citations_timeline :: "dataframe \<Rightarrow> error + trace list" where
  "create_citations_timeline df_companies =
     citations_timeline_loop df_companies (unique (map assignee_id (rows df_companies))) []"

subsection \<open>Start-up, layout and the callback\<close>

text \<open>
  The module-level names set at import time. \<open>load_data\<close> reads a file, which is outside
  the program: its outcome is the argument of \<open>startup\<close>. Only FileNotFoundError is
  caught, and then the table and the company list are empty frames.
\<close>

record module_state =
  df :: dataframe
  companies :: "(string \<times> string) list"
  available_years :: "int list"

definition startup :: "error + dataframe \<Rightarrow> error + module_state" where
  "startup loaded =
     (case loaded of
        Inr frame \<Rightarrow>
          Inr \<lparr>df = frame, companies = get_company_list frame,
               available_years = sort (unique (map cited_year (rows frame)))\<rparr>
      | Inl e \<Rightarrow>
          if e = FileNotFoundError then
            Inr \<lparr>df = empty_frame, companies = [], available_years = []\<rparr>
          else Inl e)"

text \<open>
  The two dropdowns of \<open>app.layout\<close>: their options (label, value) and initial value.
\<close>

record layout =
  company_options :: "(string \<times> string) list"
  company_value :: "string list"
  year_options :: "(string \<times> int) list"
  year_value :: "int option"

definition app_layout :: "module_state \<Rightarrow> layout" where
  "app_layout g =
     \<lparr>company_options = map (\<lambda>(aid, label). (label, aid)) (companies g),
      company_value = (case companies g of [] \<Rightarrow> [] | c # _ \<Rightarrow> [fst c]),
      year_options = map (\<lambda>y. (py_str y, y)) (available_years g),
      year_value = (case available_years g of [] \<Rightarrow> None | y # _ \<Rightarrow> Some y)\<rparr>"

text \<open>
  What the callback returns for one output: a text, the summary block (the selected year
  and one item per entry of \<open>get_patents_in_year\<close>), or a graph of a figure.
\<close>

datatype children = Text string | Summary int "(string \<times> int) list" | Graph "trace list"

definition prompt :: "children \<times> children" where
  "prompt = (Text ''Please select companies and a year to analyze.'', Text [])"

text \<open>\<open>frame[frame['assignee_id'].isin(ids)].copy()\<close>: the rows of the listed companies.\<close>

definition isin_assignee_id :: "dataframe \<Rightarrow> string list \<Rightarrow> dataframe" where
  "isin_assignee_id frame ids =
     \<lparr>columns = columns frame, rows = filter (\<lambda>r. assignee_id r \<in> set ids) (rows frame)\<rparr>"

text \<open>
  \<open>update_dashboard\<close>. \<open>not selected_companies\<close> holds for None and for the empty list,
  \<open>not selected_year\<close> for None and for 0. Indexing the table by \<open>'assignee_id'\<close> is a
  KeyError when the table has no such column.
\<close>

definition update_dashboard ::
  "module_state \<Rightarrow> string list option \<Rightarrow> int option \<Rightarrow> string \<Rightarrow> error + (children \<times> children)" where
  "update_dashboard g selected_companies selected_year active_tab =
     (case selected_companies of
        None \<Rightarrow> Inr prompt
      | Some ids \<Rightarrow>
          (case selected_year of
             None \<Rightarrow> Inr prompt
           | Some y \<Rightarrow>
               if ids = [] \<or> y = 0 then Inr prompt
               else if ''assignee_id'' \<notin> set (columns (df g)) then Inl KeyError
               else
                 (let companies_data = isin_assignee_id (df g) ids in
                  case get_patents_in_year companies_data y of
                    Inl e \<Rightarrow> Inl e
                  | Inr patents_in_year \<Rightarrow>
                      (let summary_text = Summary y patents_in_year in
                       if active_tab = ''citations-to-year'' then
                         (case create_citations_to_year_chart companies_data y of
                            Inl e \<Rightarrow> Inl e | Inr fig \<Rightarrow> Inr (summary_text, Graph fig))
                       else if active_tab = ''patents-timeline'' then
                         (case create_patents_timeline companies_data of
                            Inl e \<Rightarrow> Inl e | Inr fig \<Rightarrow> Inr (summary_text, Graph fig))
                       else if active_tab = ''citations-timeline'' then
                         (case create_citations_timeline companies_data of
                            Inl e \<Rightarrow> Inl e | Inr fig \<Rightarrow> Inr (summary_text, Graph fig))
                       else Inr (summary_text, Text [])))))"

subsection \<open>Notions used in the statements\<close>

text \<open>
  The rows of one company, the organization name of its first row (what the loops read
  with \<open>.iloc[0]\<close>), its rows of one year, and the years after \<open>y\<close>, up to 2025, whose
  label is a column of the frame.
\<close>

definition company_rows :: "dataframe \<Rightarrow> string \<Rightarrow> row list" where
  "company_rows frame aid = filter (\<lambda>r. assignee_id r = aid) (rows frame)"

definition first_organization :: "dataframe \<Rightarrow> string \<Rightarrow> string" where
  "first_organization frame aid =
     (case company_rows frame aid of [] \<Rightarrow> [] | r # _ \<Rightarrow> raw_assignee_organization r)"

definition year_rows :: "dataframe \<Rightarrow> int \<Rightarrow> string \<Rightarrow> row list" where
  "year_rows frame y aid = filter (\<lambda>r. cited_year r = y) (company_rows frame aid)"

definition year_labels :: "dataframe \<Rightarrow> int \<Rightarrow> int list" where
  "year_labels frame y = filter (\<lambda>k. py_str k \<in> set (columns frame)) [y + 1..2025]"

text \<open>The distinct identifiers of a frame, in the order the loops visit them.\<close>

definition company_ids :: "dataframe \<Rightarrow> string list" where
  "company_ids frame = unique (map assignee_id (rows frame))"

text \<open>The frame without the rows of one company.\<close>

definition without_company :: "dataframe \<Rightarrow> string \<Rightarrow> dataframe" where
  "without_company frame aid =
     \<lparr>columns = columns frame, rows = filter (\<lambda>r. assignee_id r \<noteq> aid) (rows frame)\<rparr>"

text \<open>
  The trace that \<open>create_citations_to_year_chart\<close> adds for a company it does not skip,
  and the trace a timeline adds for a company, by the column it sums.
\<close>

definition citation_trace :: "dataframe \<Rightarrow> int \<Rightarrow> string \<Rightarrow> trace" where
  "citation_trace frame y aid =
     \<lparr>trace_name = first_organization frame aid,
      trace_x = year_labels frame y,
      trace_y = map (\<lambda>k. column_sum (py_str k) (year_rows frame y aid)) (year_labels frame y)\<rparr>"

definition timeline_trace :: "(row \<Rightarrow> int) \<Rightarrow> dataframe \<Rightarrow> string \<Rightarrow> trace" where
  "timeline_trace col frame aid =
     \<lparr>trace_name = first_organization frame aid,
      trace_x = map fst (groupby_sum cited_year col (company_rows frame aid)),
      trace_y = map snd (groupby_sum cited_year col (company_rows frame aid))\<rparr>"

text \<open>
  A selection that the two dropdowns of a layout can deliver: the chosen identifiers are
  option values of the company dropdown, the chosen year one of the year dropdown; either
  may be cleared.
\<close>

definition selectable :: "layout \<Rightarrow> string list option \<Rightarrow> int option \<Rightarrow> bool" where
  "selectable lay selected_companies selected_year =
     ((case selected_companies of
         None \<Rightarrow> True | Some ids \<Rightarrow> set ids \<subseteq> snd ` set (company_options lay)) \<and>
      (case selected_year of
         None \<Rightarrow> True | Some y \<Rightarrow> y \<in> snd ` set (year_options lay)))"

subsection \<open>Example tables\<close>

definition fixed_columns :: "string list" where
  "fixed_columns =
     [''assignee_id'', ''raw_assignee_organization'', ''cited_year'', ''patents_assigned'',
      ''total_citations'']"

definition acme_2015 :: row where
  "acme_2015 =
     \<lparr>assignee_id = ''AAAAAAAA1234'', raw_assignee_organization = ''Acme'', cited_year = 2015,
      patents_assigned = 10, total_citations = 5,
      year_cells = [(''2016'', 3), (''2017'', 7)]\<rparr>"

definition acme_2016 :: row where
  "acme_2016 =
     \<lparr>assignee_id = ''AAAAAAAA1234'', raw_assignee_organization = ''Acme'', cited_year = 2016,
      patents_assigned = 8, total_citations = 2, year_cells = []\<rparr>"

definition zeta_2016a :: row where
  "zeta_2016a =
     \<lparr>assignee_id = ''ZZZZ'', raw_assignee_organization = ''Zeta'', cited_year = 2016,
      patents_assigned = 4, total_citations = 1, year_cells = [(''2017'', 2)]\<rparr>"

definition zeta_2016b :: row where
  "zeta_2016b =
     \<lparr>assignee_id = ''ZZZZ'', raw_assignee_organization = ''Zeta'', cited_year = 2016,
      patents_assigned = 6, total_citations = 3, year_cells = [(''2017'', 5)]\<rparr>"

definition acme_2023 :: row where
  "acme_2023 =
     \<lparr>assignee_id = ''AAAAAAAA1234'', raw_assignee_organization = ''Acme'', cited_year = 2023,
      patents_assigned = 2, total_citations = 4, year_cells = [(''2025'', 4)]\<rparr>"

text \<open>The example of the specification: one company, year columns 2016 to 2025.\<close>

definition acme_frame :: dataframe where
  "acme_frame =
     \<lparr>columns = fixed_columns @
        [''2016'', ''2017'', ''2018'', ''2019'', ''2020'', ''2021'', ''2022'', ''2023'', ''2024'',
         ''2025''],
      rows = [acme_2015, acme_2016]\<rparr>"

text \<open>Two companies; the second has two rows of the same year and none of 2015.\<close>

definition two_frame :: dataframe where
  "two_frame =
     \<lparr>columns = fixed_columns @ [''2016'', ''2017''],
      rows = [zeta_2016a, acme_2015, zeta_2016b, acme_2016]\<rparr>"

text \<open>A lower-case organization name, in a table that lists it first.\<close>

definition lower_2016 :: row where
  "lower_2016 =
     \<lparr>assignee_id = ''a1'', raw_assignee_organization = ''acme'', cited_year = 2016,
      patents_assigned = 1, total_citations = 0, year_cells = []\<rparr>"

definition case_frame :: dataframe where
  "case_frame = \<lparr>columns = fixed_columns, rows = [lower_2016, zeta_2016a, lower_2016]\<rparr>"

text \<open>A table with a column for 2025 and none for 2024.\<close>

definition gap_frame :: dataframe where
  "gap_frame = \<lparr>columns = fixed_columns @ [''2025''], rows = [acme_2023]\<rparr>"

text \<open>A table whose last year column is 2016, the year of its only row.\<close>

definition last_frame :: dataframe where
  "last_frame = \<lparr>columns = fixed_columns @ [''2015'', ''2016''], rows = [acme_2016]\<rparr>"

section \<open>Properties\<close>

subsection \<open>The primitives\<close>

declare str_nat.simps [simp del]

lemma unique_from_filter:
  "(\<And>y. P y \<Longrightarrow> (y \<in> set seen \<longleftrightarrow> y \<in> set seen')) \<Longrightarrow>
   filter P (unique_from seen xs) = unique_from seen' (filter P xs)"
proof (induction xs arbitrary: seen seen')
  case Nil
  then show ?case by simp
next
  case (Cons x xs)
  show ?case
  proof (cases "P x")
    case True
    have step: "filter P (unique_from (x # seen) xs) = unique_from (x # seen') (filter P xs)"
      by (rule Cons.IH) (use Cons.prems in auto)
    have rest: "filter P (unique_from seen xs) = unique_from seen' (filter P xs)"
      by (rule Cons.IH) (use Cons.prems in auto)
    from True Cons.prems[of x] step rest show ?thesis by simp
  next
    case False
    have "filter P (unique_from (x # seen) xs) = unique_from seen' (filter P xs)"
      by (rule Cons.IH) (use Cons.prems False in auto)
    moreover have "filter P (unique_from seen xs) = unique_from seen' (filter P xs)"
      by (rule Cons.IH) (use Cons.prems in auto)
    ultimately show ?thesis using False by simp
  qed
qed

lemma unique_filter: "unique (filter P xs) = filter P (unique xs)"
  unfolding unique_def by (rule unique_from_filter[symmetric]) simp

lemma set_unique_from: "set (unique_from seen xs) = set xs - set seen"
  by (induction xs arbitrary: seen) auto

lemma set_unique: "set (unique xs) = set xs"
  by (simp add: unique_def set_unique_from)

lemma distinct_unique_from: "distinct (unique_from seen xs)"
  by (induction xs arbitrary: seen) (auto simp: set_unique_from)

lemma distinct_unique: "distinct (unique xs)"
  by (simp add: unique_def distinct_unique_from)

lemma unique_map_filter: "unique (map f (filter (\<lambda>r. P (f r)) xs)) = filter P (unique (map f xs))"
  by (simp add: unique_filter[symmetric] filter_map comp_def)

lemma digit_val_digit_char: "d < 10 \<Longrightarrow> digit_val (digit_char d) = Some d"
proof -
  assume "d < 10"
  then consider "d = 0" | "d = 1" | "d = 2" | "d = 3" | "d = 4" | "d = 5" | "d = 6"
    | "d = 7" | "d = 8" | "d = 9" by atomize_elim arith
  then show ?thesis
    by cases (simp_all add: digit_val_def digit_char_def)
qed

lemma parse_nat_snoc:
  "parse_nat acc (cs @ [c]) =
     (case parse_nat acc cs of None \<Rightarrow> None
      | Some m \<Rightarrow> (case digit_val c of None \<Rightarrow> None | Some d \<Rightarrow> Some (10 * m + d)))"
  by (induction cs arbitrary: acc) (auto split: option.splits)

lemma parse_nat_str_nat: "parse_nat 0 (str_nat n) = Some n"
proof (induction n rule: str_nat.induct)
  case (1 n)
  show ?case
  proof (cases "n < 10")
    case True
    then show ?thesis by (subst str_nat.simps) (simp add: digit_val_digit_char)
  next
    case False
    with "1" have "parse_nat 0 (str_nat (n div 10)) = Some (n div 10)" by simp
    with False show ?thesis
      by (subst str_nat.simps) (simp add: parse_nat_snoc digit_val_digit_char)
  qed
qed

lemma str_nat_not_Nil: "str_nat n \<noteq> []"
  by (subst str_nat.simps) simp

lemma py_int_str_nat: "py_int (str_nat n) = Inr (int n)"
proof (cases "str_nat n")
  case Nil
  then show ?thesis by (simp add: str_nat_not_Nil)
next
  case (Cons c cs)
  have p: "parse_nat 0 (c # cs) = Some n" using parse_nat_str_nat[of n] Cons by simp
  then have "digit_val c \<noteq> None" by (auto split: option.splits)
  then have "c \<noteq> CHR ''-''" by (auto simp: digit_val_def)
  with p Cons show ?thesis by (simp add: py_int_def)
qed

lemma py_int_py_str: "py_int (py_str i) = Inr i"
proof (cases "i < 0")
  case True
  have "parse_nat 0 (str_nat (nat (- i))) = Some (nat (- i))" by (rule parse_nat_str_nat)
  with True show ?thesis by (simp add: py_int_def py_str_def str_nat_not_Nil)
next
  case False
  then show ?thesis by (simp add: py_str_def py_int_str_nat)
qed

lemma citations_loop_eq:
  "citations_loop cols yd (map py_str ys) acc =
     Inr (acc @ map (\<lambda>y. (y, column_sum (py_str y) yd)) (filter (\<lambda>y. py_str y \<in> set cols) ys))"
  by (induction ys arbitrary: acc) (simp_all add: py_int_py_str)

subsection \<open>The loops in closed form\<close>

lemma iloc0_company:
  "aid \<in> assignee_id ` set (rows frame) \<Longrightarrow>
   iloc0 (map raw_assignee_organization (filter (\<lambda>r. assignee_id r = aid) (rows frame)))
     = Inr (first_organization frame aid)"
proof -
  assume "aid \<in> assignee_id ` set (rows frame)"
  then have "filter (\<lambda>r. assignee_id r = aid) (rows frame) \<noteq> []"
    by (auto simp: filter_empty_conv)
  then show ?thesis
    by (cases "filter (\<lambda>r. assignee_id r = aid) (rows frame)")
       (simp_all add: iloc0_def first_organization_def company_rows_def)
qed

lemma patents_in_year_loop_eq:
  "set aids \<subseteq> assignee_id ` set (rows frame) \<Longrightarrow>
   patents_in_year_loop frame y aids info =
     Inr (info @ map (\<lambda>a. (first_organization frame a,
                           sum_list (map patents_assigned (year_rows frame y a)))) aids)"
proof (induction aids arbitrary: info)
  case Nil
  then show ?case by simp
next
  case (Cons a aids)
  then have a: "a \<in> assignee_id ` set (rows frame)" and rest: "set aids \<subseteq> assignee_id ` set (rows frame)"
    by auto
  show ?case
    by (simp add: iloc0_company[OF a] Cons.IH[OF rest] Let_def year_rows_def company_rows_def)
qed

lemma sort_values_groupby: "sort_values fst (groupby_sum key col rs) = groupby_sum key col rs"
proof -
  have "map fst (groupby_sum key col rs) = sort (remdups (map key rs))"
    by (simp add: groupby_sum_def comp_def)
  then have "sorted (map fst (groupby_sum key col rs))" by simp
  then show ?thesis by (simp add: sort_values_def sort_key_id_if_sorted)
qed

lemma patents_timeline_loop_eq:
  "set aids \<subseteq> assignee_id ` set (rows frame) \<Longrightarrow>
   patents_timeline_loop frame aids fig =
     Inr (fig @ map (timeline_trace patents_assigned frame) aids)"
proof (induction aids arbitrary: fig)
  case Nil
  then show ?case by simp
next
  case (Cons a aids)
  then have a: "a \<in> assignee_id ` set (rows frame)" and rest: "set aids \<subseteq> assignee_id ` set (rows frame)"
    by auto
  show ?case
    by (simp add: iloc0_company[OF a] Cons.IH[OF rest] Let_def sort_values_groupby
        timeline_trace_def company_rows_def)
qed

lemma citations_timeline_loop_eq:
  "set aids \<subseteq> assignee_id ` set (rows frame) \<Longrightarrow>
   citations_timeline_loop frame aids fig =
     Inr (fig @ map (timeline_trace total_citations frame) aids)"
proof (induction aids arbitrary: fig)
  case Nil
  then show ?case by simp
next
  case (Cons a aids)
  then have a: "a \<in> assignee_id ` set (rows frame)" and rest: "set aids \<subseteq> assignee_id ` set (rows frame)"
    by auto
  show ?case
    by (simp add: iloc0_company[OF a] Cons.IH[OF rest] Let_def sort_values_groupby
        timeline_trace_def company_rows_def)
qed

lemma citations_to_year_loop_eq:
  "set aids \<subseteq> assignee_id ` set (rows frame) \<Longrightarrow>
   citations_to_year_loop frame y aids fig =
     Inr (fig @ map (citation_trace frame y)
            (filter (\<lambda>a. year_rows frame y a \<noteq> [] \<and> year_labels frame y \<noteq> []) aids))"
proof (induction aids arbitrary: fig)
  case Nil
  then show ?case by simp
next
  case (Cons a aids)
  then have a: "a \<in> assignee_id ` set (rows frame)" and rest: "set aids \<subseteq> assignee_id ` set (rows frame)"
    by auto
  have range: "py_range (y + 1) 2026 = [y + 1..2025]" by (simp add: py_range_def)
  show ?case
    by (simp add: iloc0_company[OF a] Cons.IH[OF rest] Let_def citations_loop_eq range
        citation_trace_def year_rows_def company_rows_def year_labels_def comp_def)
qed

subsection \<open>The four reports in closed form\<close>

lemma company_ids_subset: "set (company_ids frame) \<subseteq> assignee_id ` set (rows frame)"
  by (simp add: company_ids_def set_unique)

lemma get_patents_in_year_eq:
  "get_patents_in_year frame y =
     Inr (map (\<lambda>a. (first_organization frame a, sum_list (map patents_assigned (year_rows frame y a))))
            (company_ids frame))"
  using patents_in_year_loop_eq[OF company_ids_subset, of frame y "[]"]
  by (simp add: get_patents_in_year_def company_ids_def)

lemma create_patents_timeline_eq:
  "create_patents_timeline frame = Inr (map (timeline_trace patents_assigned frame) (company_ids frame))"
  using patents_timeline_loop_eq[OF company_ids_subset, of frame "[]"]
  by (simp add: create_patents_timeline_def company_ids_def)

lemma create_citations_timeline_eq:
  "create_citations_timeline frame = Inr (map (timeline_trace total_citations frame) (company_ids frame))"
  using citations_timeline_loop_eq[OF company_ids_subset, of frame "[]"]
  by (simp add: create_citations_timeline_def company_ids_def)

lemma create_citations_to_year_chart_eq:
  "create_citations_to_year_chart frame y =
     Inr (map (citation_trace frame y)
            (filter (\<lambda>a. year_rows frame y a \<noteq> [] \<and> year_labels frame y \<noteq> []) (company_ids frame)))"
  using citations_to_year_loop_eq[OF company_ids_subset, of frame y "[]"]
  by (simp add: create_citations_to_year_chart_def company_ids_def)

subsection \<open>Evaluation of the examples\<close>

lemmas example_defs = acme_frame_def two_frame_def gap_frame_def last_frame_def fixed_columns_def
  acme_2015_def acme_2016_def zeta_2016a_def zeta_2016b_def acme_2023_def lower_2016_def
  case_frame_def

lemma py_str_years:
  "py_str 2015 = ''2015''" "py_str 2016 = ''2016''" "py_str 2017 = ''2017''"
  "py_str 2018 = ''2018''" "py_str 2019 = ''2019''" "py_str 2020 = ''2020''"
  "py_str 2021 = ''2021''" "py_str 2022 = ''2022''" "py_str 2023 = ''2023''"
  "py_str 2024 = ''2024''" "py_str 2025 = ''2025''"
  by (simp_all add: py_str_def str_nat.simps digit_char_def)

lemmas eval_simps = example_defs unique_def iloc0_def Let_def py_range_def
  py_str_years py_int_def digit_val_def column_sum_def cell_def

section \<open>The claims\<close>

text \<open>
  C3. For every table of the selected companies and every year \<open>y\<close>, the summary has one
  entry per company, in the order in which the companies first appear in the table; the
  entry holds the organization name of the company's first row and the sum of
  \<open>patents_assigned\<close> over the company's rows with \<open>cited_year = y\<close>, which is zero
  when there is no such row. It never raises.
\<close>

theorem summary_per_company:
  "get_patents_in_year df_companies y =
     Inr (map (\<lambda>a. (first_organization df_companies a,
                    sum_list (map patents_assigned
                      (filter (\<lambda>r. assignee_id r = a \<and> cited_year r = y) (rows df_companies)))))
            (unique (map assignee_id (rows df_companies))))
   \<and> (\<forall>a. filter (\<lambda>r. assignee_id r = a \<and> cited_year r = y) (rows df_companies) = [] \<longrightarrow>
          sum_list (map patents_assigned
            (filter (\<lambda>r. assignee_id r = a \<and> cited_year r = y) (rows df_companies))) = 0)"
  by (simp add: get_patents_in_year_eq year_rows_def company_rows_def company_ids_def conj_commute)

text \<open>
  The table \<open>two_frame\<close> at 2015: Zeta comes first in the table and has no row of 2015,
  Acme has one with 10 patents.
\<close>

theorem summary_per_company_witness:
  "filter (\<lambda>r. assignee_id r = ''ZZZZ'' \<and> cited_year r = 2015) (rows two_frame) = []
   \<and> get_patents_in_year two_frame 2015 = Inr [(''Zeta'', 0), (''Acme'', 10)]"
  using summary_per_company[of two_frame 2015]
  by (simp add: first_organization_def company_rows_def eval_simps)

text \<open>
  C6. Whenever no company is selected (the selection is None or the empty list) or no year
  is selected, the callback returns the prompt and an empty content, whatever the table
  and the active tab are: nothing is computed from the table and nothing is raised.
\<close>

theorem awaiting_input:
  "selected_companies = None \<or> selected_companies = Some [] \<or> selected_year = None \<Longrightarrow>
   update_dashboard g selected_companies selected_year active_tab =
     Inr (Text ''Please select companies and a year to analyze.'', Text [])"
  by (auto simp: update_dashboard_def prompt_def split: option.splits)

theorem awaiting_input_witness:
  "update_dashboard \<lparr>df = acme_frame, companies = [], available_years = [2015, 2016]\<rparr>
     (Some []) (Some 2015) ''patents-timeline''
     = Inr (Text ''Please select companies and a year to analyze.'', Text [])
   \<and> update_dashboard \<lparr>df = acme_frame, companies = [], available_years = [2015, 2016]\<rparr>
     (Some [''AAAAAAAA1234'']) None ''citations-to-year''
     = Inr (Text ''Please select companies and a year to analyze.'', Text [])"
  using awaiting_input[of "Some []" "Some 2015"
          "\<lparr>df = acme_frame, companies = [], available_years = [2015, 2016]\<rparr>" "''patents-timeline''"]
        awaiting_input[of "Some [''AAAAAAAA1234'']" None
          "\<lparr>df = acme_frame, companies = [], available_years = [2015, 2016]\<rparr>" "''citations-to-year''"]
  by simp

text \<open>
  C7, as stated, fails: a table that cannot be loaded for another reason than a missing
  file, a file that pandas cannot parse for one, is an error that start-up does not
  catch, so the program terminates instead of running with an empty table.
\<close>

theorem load_failure_counterexample:
  "startup (Inl ParserError) = Inl ParserError
   \<and> \<not> (\<exists>g. startup (Inl ParserError) = Inr g)"
  by (simp add: startup_def)

text \<open>
  C7, amended. When loading the table fails with FileNotFoundError, start-up does not
  fail: the table is the empty frame and the company list is empty, both dropdowns have
  no option, their initial values are the empty list and None, and the callback returns
  the prompt for the initial values and for every selection the dropdowns can deliver,
  on every tab. Every other error of loading is passed on by start-up.
\<close>

theorem data_unavailable_keeps_running:
  "(\<exists>g. startup (Inl FileNotFoundError) = Inr g
      \<and> df g = empty_frame \<and> companies g = [] \<and> available_years g = []
      \<and> company_options (app_layout g) = [] \<and> year_options (app_layout g) = []
      \<and> company_value (app_layout g) = [] \<and> year_value (app_layout g) = None
      \<and> (\<forall>active_tab.
            update_dashboard g (Some (company_value (app_layout g))) (year_value (app_layout g))
              active_tab = Inr prompt)
      \<and> (\<forall>selected_companies selected_year active_tab.
            selectable (app_layout g) selected_companies selected_year \<longrightarrow>
            update_dashboard g selected_companies selected_year active_tab = Inr prompt))
   \<and> (\<forall>e. e \<noteq> FileNotFoundError \<longrightarrow> startup (Inl e) = Inl e)"
proof -
  define g where "g = \<lparr>df = empty_frame, companies = [], available_years = []\<rparr>"
  have start: "startup (Inl FileNotFoundError) = Inr g"
    by (simp add: startup_def g_def)
  have lay: "app_layout g =
      \<lparr>company_options = [], company_value = [], year_options = [], year_value = None\<rparr>"
    by (simp add: app_layout_def g_def)
  have sel: "update_dashboard g sc sy tab = Inr prompt" if "selectable (app_layout g) sc sy"
    for sc sy tab
    using that by (auto simp: lay selectable_def update_dashboard_def split: option.splits)
  have init: "update_dashboard g (Some []) None tab = Inr prompt" for tab
    by (simp add: update_dashboard_def)
  have other: "\<forall>e. e \<noteq> FileNotFoundError \<longrightarrow> startup (Inl e) = Inl e"
    by (simp add: startup_def)
  have "\<exists>g. startup (Inl FileNotFoundError) = Inr g
      \<and> df g = empty_frame \<and> companies g = [] \<and> available_years g = []
      \<and> company_options (app_layout g) = [] \<and> year_options (app_layout g) = []
      \<and> company_value (app_layout g) = [] \<and> year_value (app_layout g) = None
      \<and> (\<forall>active_tab.
            update_dashboard g (Some (company_value (app_layout g))) (year_value (app_layout g))
              active_tab = Inr prompt)
      \<and> (\<forall>selected_companies selected_year active_tab.
            selectable (app_layout g) selected_companies selected_year \<longrightarrow>
            update_dashboard g selected_companies selected_year active_tab = Inr prompt)"
    using start lay sel init by (intro exI[of _ g]) (simp add: g_def)
  with other show ?thesis by blast
qed

theorem data_unavailable_keeps_running_witness:
  "selectable (app_layout \<lparr>df = empty_frame, companies = [], available_years = []\<rparr>) (Some []) None
   \<and> startup (Inl FileNotFoundError)
       = Inr \<lparr>df = empty_frame, companies = [], available_years = []\<rparr>
   \<and> update_dashboard \<lparr>df = empty_frame, companies = [], available_years = []\<rparr>
        (Some []) None ''citations-timeline'' = Inr prompt
   \<and> ParserError \<noteq> FileNotFoundError
   \<and> startup (Inl ParserError) = Inl ParserError"
proof -
  from data_unavailable_keeps_running obtain g where
    start: "startup (Inl FileNotFoundError) = Inr g" and
    sel: "\<And>sc sy tab. selectable (app_layout g) sc sy \<Longrightarrow> update_dashboard g sc sy tab = Inr prompt"
    by blast
  from data_unavailable_keeps_running
  have other: "ParserError \<noteq> FileNotFoundError \<Longrightarrow> startup (Inl ParserError) = Inl ParserError"
    by blast
  from start have g: "g = \<lparr>df = empty_frame, companies = [], available_years = []\<rparr>"
    by (simp add: startup_def)
  have ok: "selectable (app_layout g) (Some []) None"
    by (simp add: selectable_def)
  from sel[OF ok] ok start other show ?thesis by (simp add: g)
qed

text \<open>
  A remark on the limits of C7: the callback itself raises on the empty frame once a
  company and a year are passed to it, which the empty dropdowns cannot deliver.
\<close>

lemma update_dashboard_empty_frame_KeyError:
  "ids \<noteq> [] \<Longrightarrow> y \<noteq> 0 \<Longrightarrow>
   update_dashboard \<lparr>df = empty_frame, companies = [], available_years = []\<rparr>
     (Some ids) (Some y) active_tab = Inl KeyError"
  by (simp add: update_dashboard_def empty_frame_def)

subsection \<open>Grouping by year\<close>

lemma sum_list_single_key:
  "distinct ks \<Longrightarrow>
   sum_list (map (\<lambda>k. if x = k then (c::int) else 0) ks) = (if x \<in> set ks then c else 0)"
  by (induction ks) auto

lemma sum_list_groups:
  "distinct ks \<Longrightarrow> key ` set rs \<subseteq> set ks \<Longrightarrow>
   sum_list (map (\<lambda>k. sum_list (map col (filter (\<lambda>r. key r = k) rs))) ks)
     = (sum_list (map col rs) :: int)"
proof (induction rs)
  case Nil
  then show ?case by simp
next
  case (Cons r rs)
  have split: "(\<lambda>k. sum_list (map col (filter (\<lambda>r. key r = k) (r # rs))))
      = (\<lambda>k. (if key r = k then col r else 0) + sum_list (map col (filter (\<lambda>r. key r = k) rs)))"
    by (rule ext) simp
  have "key r \<in> set ks" using Cons.prems by auto
  with Cons show ?case
    by (simp only: split sum_list_addf sum_list_single_key) simp
qed

lemma groupby_sum_keys: "map fst (groupby_sum key col rs) = sort (remdups (map key rs))"
  by (simp add: groupby_sum_def comp_def)

lemma groupby_sum_values:
  "map snd (groupby_sum key col rs)
     = map (\<lambda>k. sum_list (map col (filter (\<lambda>r. key r = k) rs))) (sort (remdups (map key rs)))"
  by (simp add: groupby_sum_def comp_def)

lemma groupby_sum_total: "sum_list (map snd (groupby_sum key col rs)) = sum_list (map col rs)"
  unfolding groupby_sum_values by (rule sum_list_groups) simp_all

lemma timeline_trace_props:
  "sum_list (trace_y (timeline_trace col frame a))
     = sum_list (map col (filter (\<lambda>r. assignee_id r = a) (rows frame)))
   \<and> sorted_wrt (<) (trace_x (timeline_trace col frame a))
   \<and> set (trace_x (timeline_trace col frame a))
       = cited_year ` set (filter (\<lambda>r. assignee_id r = a) (rows frame))
   \<and> trace_y (timeline_trace col frame a)
       = map (\<lambda>k. sum_list (map col
                (filter (\<lambda>r. assignee_id r = a \<and> cited_year r = k) (rows frame))))
           (trace_x (timeline_trace col frame a))"
proof (intro conjI)
  show "sum_list (trace_y (timeline_trace col frame a))
     = sum_list (map col (filter (\<lambda>r. assignee_id r = a) (rows frame)))"
    by (simp add: timeline_trace_def groupby_sum_total company_rows_def)
  show "sorted_wrt (<) (trace_x (timeline_trace col frame a))"
    by (simp add: timeline_trace_def groupby_sum_keys strict_sorted_iff)
  show "set (trace_x (timeline_trace col frame a))
       = cited_year ` set (filter (\<lambda>r. assignee_id r = a) (rows frame))"
    by (simp add: timeline_trace_def groupby_sum_keys company_rows_def)
  have both: "filter (\<lambda>r. cited_year r = k) (company_rows frame a)
      = filter (\<lambda>r. assignee_id r = a \<and> cited_year r = k) (rows frame)" for k
    by (simp add: company_rows_def)
  show "trace_y (timeline_trace col frame a)
       = map (\<lambda>k. sum_list (map col
                (filter (\<lambda>r. assignee_id r = a \<and> cited_year r = k) (rows frame))))
           (trace_x (timeline_trace col frame a))"
    by (simp only: timeline_trace_def trace.simps groupby_sum_keys groupby_sum_values both)
qed

lemma list_all2_map_same: "list_all2 P xs (map f xs) \<longleftrightarrow> (\<forall>x\<in>set xs. P x (f x))"
  by (simp add: list_all2_map2 list_all2_same)

text \<open>
  C4. Both timelines return one trace per company, in the order of the companies. The
  values of a company's trace add up to the sum of the column (\<open>patents_assigned\<close>,
  \<open>total_citations\<close>) over all rows of the company; its years are strictly increasing,
  hence without duplicates, and are exactly the years of the company's rows; the value
  at a year is the sum of the column over all rows of the company with that year.
\<close>

theorem timelines_sum_and_merge:
  "\<exists>pfig cfig.
     create_patents_timeline df_companies = Inr pfig
   \<and> create_citations_timeline df_companies = Inr cfig
   \<and> list_all2
        (\<lambda>a t. sum_list (trace_y t)
                 = sum_list (map patents_assigned
                     (filter (\<lambda>r. assignee_id r = a) (rows df_companies)))
              \<and> sorted_wrt (<) (trace_x t)
              \<and> set (trace_x t)
                 = cited_year ` set (filter (\<lambda>r. assignee_id r = a) (rows df_companies))
              \<and> trace_y t
                 = map (\<lambda>k. sum_list (map patents_assigned
                          (filter (\<lambda>r. assignee_id r = a \<and> cited_year r = k) (rows df_companies))))
                     (trace_x t))
        (unique (map assignee_id (rows df_companies))) pfig
   \<and> list_all2
        (\<lambda>a t. sum_list (trace_y t)
                 = sum_list (map total_citations
                     (filter (\<lambda>r. assignee_id r = a) (rows df_companies)))
              \<and> sorted_wrt (<) (trace_x t)
              \<and> set (trace_x t)
                 = cited_year ` set (filter (\<lambda>r. assignee_id r = a) (rows df_companies))
              \<and> trace_y t
                 = map (\<lambda>k. sum_list (map total_citations
                          (filter (\<lambda>r. assignee_id r = a \<and> cited_year r = k) (rows df_companies))))
                     (trace_x t))
        (unique (map assignee_id (rows df_companies))) cfig"
proof -
  have ids: "unique (map assignee_id (rows df_companies)) = company_ids df_companies"
    by (simp add: company_ids_def)
  have p: "list_all2
        (\<lambda>a t. sum_list (trace_y t)
                 = sum_list (map col (filter (\<lambda>r. assignee_id r = a) (rows df_companies)))
              \<and> sorted_wrt (<) (trace_x t)
              \<and> set (trace_x t)
                 = cited_year ` set (filter (\<lambda>r. assignee_id r = a) (rows df_companies))
              \<and> trace_y t
                 = map (\<lambda>k. sum_list (map col
                          (filter (\<lambda>r. assignee_id r = a \<and> cited_year r = k) (rows df_companies))))
                     (trace_x t))
        (company_ids df_companies) (map (timeline_trace col df_companies) (company_ids df_companies))"
    for col
    unfolding list_all2_map_same using timeline_trace_props[of col df_companies] by blast
  show ?thesis
    unfolding create_patents_timeline_eq create_citations_timeline_eq ids
    using p[of patents_assigned] p[of total_citations] by blast
qed

text \<open>
  On \<open>two_frame\<close>, Zeta's two rows of 2016 (4 and 6 patents, 1 and 3 citations) are merged
  into one point each.
\<close>

theorem timelines_sum_and_merge_witness:
  "create_patents_timeline two_frame
     = Inr [\<lparr>trace_name = ''Zeta'', trace_x = [2016], trace_y = [10]\<rparr>,
            \<lparr>trace_name = ''Acme'', trace_x = [2015, 2016], trace_y = [10, 8]\<rparr>]
   \<and> create_citations_timeline two_frame
     = Inr [\<lparr>trace_name = ''Zeta'', trace_x = [2016], trace_y = [4]\<rparr>,
            \<lparr>trace_name = ''Acme'', trace_x = [2015, 2016], trace_y = [5, 2]\<rparr>]
   \<and> sum_list (map patents_assigned (filter (\<lambda>r. assignee_id r = ''ZZZZ'') (rows two_frame))) = 10
   \<and> sum_list (map total_citations (filter (\<lambda>r. assignee_id r = ''ZZZZ'') (rows two_frame))) = 4"
proof -
  have p: "create_patents_timeline two_frame
     = Inr [\<lparr>trace_name = ''Zeta'', trace_x = [2016], trace_y = [10]\<rparr>,
            \<lparr>trace_name = ''Acme'', trace_x = [2015, 2016], trace_y = [10, 8]\<rparr>]"
    by (simp add: create_patents_timeline_def sort_values_def groupby_sum_def eval_simps)
  have c: "create_citations_timeline two_frame
     = Inr [\<lparr>trace_name = ''Zeta'', trace_x = [2016], trace_y = [4]\<rparr>,
            \<lparr>trace_name = ''Acme'', trace_x = [2015, 2016], trace_y = [5, 2]\<rparr>]"
    by (simp add: create_citations_timeline_def sort_values_def groupby_sum_def eval_simps)
  have ids: "unique (map assignee_id (rows two_frame)) = [''ZZZZ'', ''AAAAAAAA1234'']"
    by (simp add: eval_simps)
  from timelines_sum_and_merge[of two_frame] p c show ?thesis
    by (auto simp: ids)
qed

subsection \<open>The company list\<close>

lemma group_keys_set:
  "set (group_keys rs) = (\<lambda>r. (assignee_id r, raw_assignee_organization r)) ` set rs"
  by (simp add: group_keys_def)

lemma group_keys_distinct: "distinct (group_keys rs)"
  by (simp add: group_keys_def)

lemma group_keys_by_set: "set rs = set rs' \<Longrightarrow> group_keys rs = group_keys rs'"
proof -
  assume eq: "set rs = set rs'"
  have "group_keys xs
      = sorted_list_of_set ((\<lambda>r. (assignee_id r, raw_assignee_organization r)) ` set xs)" for xs
    using sorted_list_of_set_sort_remdups[of "map (\<lambda>r. (assignee_id r, raw_assignee_organization r)) xs"]
    by (simp add: group_keys_def)
  with eq show ?thesis by simp
qed

lemma labelled_inj:
  "inj (\<lambda>(aid, organization). (aid, display_name organization aid))"
  by (auto simp: inj_on_def display_name_def)

text \<open>
  C5. Whatever the order of the rows, \<open>get_company_list\<close> returns pairs of an identifier
  and a label, sorted ascending by the label in the order of strings (character by
  character, by character code, a proper prefix first). There is exactly one pair for
  each distinct pair of identifier and organization name in the table, and its label is
  the organization name followed by a blank, an opening parenthesis, the first eight
  characters of the identifier, three dots and a closing parenthesis. The result depends
  on the set of rows only.
\<close>

theorem company_list_sorted:
  "sorted (map snd (get_company_list frame))
   \<and> set (get_company_list frame)
       = (\<lambda>r. (assignee_id r,
                raw_assignee_organization r @ '' ('' @ take 8 (assignee_id r) @ ''...)''))
           ` set (rows frame)
   \<and> distinct (get_company_list frame)
   \<and> (\<forall>frame'. set (rows frame') = set (rows frame) \<longrightarrow>
          get_company_list frame' = get_company_list frame)"
proof (intro conjI allI impI)
  show "sorted (map snd (get_company_list frame))"
    by (simp add: get_company_list_def sort_values_def)
  show "set (get_company_list frame)
       = (\<lambda>r. (assignee_id r,
                raw_assignee_organization r @ '' ('' @ take 8 (assignee_id r) @ ''...)''))
           ` set (rows frame)"
    by (auto simp: get_company_list_def sort_values_def group_keys_set display_name_def image_iff)
  show "distinct (get_company_list frame)"
    by (simp add: get_company_list_def sort_values_def distinct_map group_keys_distinct
        inj_on_subset[OF labelled_inj])
  show "get_company_list frame' = get_company_list frame"
    if "set (rows frame') = set (rows frame)" for frame'
    using group_keys_by_set[OF that] by (simp add: get_company_list_def)
qed

text \<open>
  The rows of \<open>case_frame\<close> in two orders: the label of Zeta comes before the one of
  acme, since an upper-case letter is smaller than a lower-case one.
\<close>

theorem company_list_sorted_witness:
  "set (rows \<lparr>columns = fixed_columns, rows = [zeta_2016a, lower_2016]\<rparr>) = set (rows case_frame)
   \<and> get_company_list case_frame = [(''ZZZZ'', ''Zeta (ZZZZ...)''), (''a1'', ''acme (a1...)'')]
   \<and> get_company_list \<lparr>columns = fixed_columns, rows = [zeta_2016a, lower_2016]\<rparr>
       = [(''ZZZZ'', ''Zeta (ZZZZ...)''), (''a1'', ''acme (a1...)'')]
   \<and> get_company_list two_frame
       = [(''AAAAAAAA1234'', ''Acme (AAAAAAAA...)''), (''ZZZZ'', ''Zeta (ZZZZ...)'')]"
proof -
  have same: "set (rows \<lparr>columns = fixed_columns, rows = [zeta_2016a, lower_2016]\<rparr>)
      = set (rows case_frame)"
    by (auto simp: case_frame_def)
  have one: "get_company_list case_frame
      = [(''ZZZZ'', ''Zeta (ZZZZ...)''), (''a1'', ''acme (a1...)'')]"
    by code_simp
  have two: "get_company_list two_frame
       = [(''AAAAAAAA1234'', ''Acme (AAAAAAAA...)''), (''ZZZZ'', ''Zeta (ZZZZ...)'')]"
    by code_simp
  from company_list_sorted[of case_frame] same
  have "get_company_list \<lparr>columns = fixed_columns, rows = [zeta_2016a, lower_2016]\<rparr>
      = get_company_list case_frame"
    by blast
  with same one two show ?thesis by simp
qed

subsection \<open>Citations to the patents of one year\<close>

lemma year_labels_sorted: "sorted_wrt (<) (year_labels frame y)"
proof -
  have "sorted_wrt (<) [y + 1..2025]" by (simp add: strict_sorted_iff)
  then show ?thesis unfolding year_labels_def by (rule sorted_wrt_filter)
qed

lemma year_labels_full:
  assumes "\<forall>k\<in>{y + 1..2025}. py_str k \<in> set (columns frame)"
  shows "year_labels frame y = [y + 1..2025]"
  using assms by (simp add: year_labels_def)

lemma year_labels_nonempty: "year_labels frame y \<noteq> [] \<Longrightarrow> y < 2025"
  by (cases "y < 2025") (simp_all add: year_labels_def)

text \<open>
  C1, as stated, fails on a table that has a column for 2025 and none for 2024: for the
  year 2023 the series has the single point of 2025, not the two points 2024 and 2025.
\<close>

theorem contiguous_series_counterexample:
  "create_citations_to_year_chart gap_frame 2023
     = Inr [\<lparr>trace_name = ''Acme'', trace_x = [2025], trace_y = [4]\<rparr>]
   \<and> \<not> (\<exists>fig. create_citations_to_year_chart gap_frame 2023 = Inr fig
          \<and> (\<forall>t\<in>set fig. int (length (trace_x t)) = 2025 - 2023
                           \<and> trace_x t = [2023 + 1..2025]))"
proof -
  have ev: "create_citations_to_year_chart gap_frame 2023
     = Inr [\<lparr>trace_name = ''Acme'', trace_x = [2025], trace_y = [4]\<rparr>]"
    by (simp add: create_citations_to_year_chart_def eval_simps)
  then show ?thesis by simp
qed

text \<open>
  C1, amended. The transform never raises. When at least one year from \<open>y + 1\<close> to 2025
  has a column in the table, it emits one series for each company that has rows of the
  year \<open>y\<close>, in the order of the companies, and otherwise none. The series of a company
  has one point for each year from \<open>y + 1\<close> to 2025 whose label is a column of the
  table, in increasing order of the year, and at least one point; a year without a
  column has no point. The value at a year is the sum of that column over the rows of
  year \<open>y\<close> of that company, an empty cell counting as zero, and the point is there
  whatever the sum is. When every year from \<open>y + 1\<close> to 2025 has a column, the years are
  exactly \<open>y + 1, ..., 2025\<close> and the series has \<open>2025 - y\<close> points.
\<close>

theorem citations_to_year_points:
  "\<exists>fig. create_citations_to_year_chart df_companies y = Inr fig
     \<and> list_all2
         (\<lambda>a t.
             trace_name t = first_organization df_companies a
           \<and> trace_x t = filter (\<lambda>k. py_str k \<in> set (columns df_companies)) [y + 1..2025]
           \<and> trace_x t \<noteq> []
           \<and> sorted_wrt (<) (trace_x t)
           \<and> trace_y t
               = map (\<lambda>k. sum_list (map (\<lambda>r. cell r (py_str k))
                        (filter (\<lambda>r. cited_year r = y)
                          (filter (\<lambda>r. assignee_id r = a) (rows df_companies)))))
                   (trace_x t)
           \<and> ((\<forall>k\<in>{y + 1..2025}. py_str k \<in> set (columns df_companies)) \<longrightarrow>
                 trace_x t = [y + 1..2025] \<and> int (length (trace_x t)) = 2025 - y))
         (filter
            (\<lambda>a. filter (\<lambda>r. cited_year r = y)
                   (filter (\<lambda>r. assignee_id r = a) (rows df_companies)) \<noteq> []
                \<and> filter (\<lambda>k. py_str k \<in> set (columns df_companies)) [y + 1..2025] \<noteq> [])
            (unique (map assignee_id (rows df_companies))))
         fig"
proof -
  let ?emits = "\<lambda>a. year_rows df_companies y a \<noteq> [] \<and> year_labels df_companies y \<noteq> []"
  let ?ids = "filter ?emits (company_ids df_companies)"
  let ?P = "\<lambda>a t.
             trace_name t = first_organization df_companies a
           \<and> trace_x t = filter (\<lambda>k. py_str k \<in> set (columns df_companies)) [y + 1..2025]
           \<and> trace_x t \<noteq> []
           \<and> sorted_wrt (<) (trace_x t)
           \<and> trace_y t
               = map (\<lambda>k. sum_list (map (\<lambda>r. cell r (py_str k))
                        (filter (\<lambda>r. cited_year r = y)
                          (filter (\<lambda>r. assignee_id r = a) (rows df_companies)))))
                   (trace_x t)
           \<and> ((\<forall>k\<in>{y + 1..2025}. py_str k \<in> set (columns df_companies)) \<longrightarrow>
                 trace_x t = [y + 1..2025] \<and> int (length (trace_x t)) = 2025 - y)"
  have one: "?P a (citation_trace df_companies y a)" if "a \<in> set ?ids" for a
  proof -
    let ?t = "citation_trace df_companies y a"
    from that have lab: "year_labels df_companies y \<noteq> []" by simp
    have n: "trace_name ?t = first_organization df_companies a"
      by (simp add: citation_trace_def)
    have x: "trace_x ?t = year_labels df_companies y"
      by (simp add: citation_trace_def)
    have x': "trace_x ?t = filter (\<lambda>k. py_str k \<in> set (columns df_companies)) [y + 1..2025]"
      by (simp add: x year_labels_def)
    have ne: "trace_x ?t \<noteq> []" using lab by (simp add: x)
    have so: "sorted_wrt (<) (trace_x ?t)" by (simp add: x year_labels_sorted)
    have v: "trace_y ?t
        = map (\<lambda>k. sum_list (map (\<lambda>r. cell r (py_str k))
                 (filter (\<lambda>r. cited_year r = y)
                   (filter (\<lambda>r. assignee_id r = a) (rows df_companies)))))
            (trace_x ?t)"
      by (simp add: citation_trace_def column_sum_def year_rows_def company_rows_def)
    have full: "trace_x ?t = [y + 1..2025] \<and> int (length (trace_x ?t)) = 2025 - y"
      if all: "\<forall>k\<in>{y + 1..2025}. py_str k \<in> set (columns df_companies)"
    proof -
      have "y < 2025" using lab by (rule year_labels_nonempty)
      then show ?thesis by (simp add: x year_labels_full[OF all])
    qed
    from n x' ne so v full show ?thesis by blast
  qed
  have ids: "filter
            (\<lambda>a. filter (\<lambda>r. cited_year r = y)
                   (filter (\<lambda>r. assignee_id r = a) (rows df_companies)) \<noteq> []
                \<and> filter (\<lambda>k. py_str k \<in> set (columns df_companies)) [y + 1..2025] \<noteq> [])
            (unique (map assignee_id (rows df_companies))) = ?ids"
    by (simp only: company_ids_def year_rows_def company_rows_def year_labels_def)
  have "list_all2 ?P ?ids (map (citation_trace df_companies y) ?ids)"
    unfolding list_all2_map_same using one by blast
  then show ?thesis
    unfolding ids create_citations_to_year_chart_eq by blast
qed

text \<open>
  The example of the specification: all columns from 2016 to 2025 exist, and the series
  of 2015 has the ten points (2016, 3), (2017, 7) and zero from 2018 to 2025.
\<close>

theorem citations_to_year_points_witness:
  "list_all (\<lambda>k. py_str k \<in> set (columns acme_frame)) [2015 + 1..2025]
   \<and> filter (\<lambda>r. cited_year r = 2015)
       (filter (\<lambda>r. assignee_id r = ''AAAAAAAA1234'') (rows acme_frame)) = [acme_2015]
   \<and> create_citations_to_year_chart acme_frame 2015
       = Inr [\<lparr>trace_name = ''Acme'',
               trace_x = [2016, 2017, 2018, 2019, 2020, 2021, 2022, 2023, 2024, 2025],
               trace_y = [3, 7, 0, 0, 0, 0, 0, 0, 0, 0]\<rparr>]
   \<and> int (length [2016, 2017, 2018, 2019, 2020, 2021, 2022, 2023, 2024, 2025 :: int])
       = 2025 - 2015"
proof -
  have cols: "list_all (\<lambda>k. py_str k \<in> set (columns acme_frame)) [2015 + 1..2025]"
    by (simp add: eval_simps)
  have yr: "filter (\<lambda>r. cited_year r = 2015)
       (filter (\<lambda>r. assignee_id r = ''AAAAAAAA1234'') (rows acme_frame)) = [acme_2015]"
    by (simp add: acme_frame_def acme_2015_def acme_2016_def)
  have ev: "create_citations_to_year_chart acme_frame 2015
       = Inr [\<lparr>trace_name = ''Acme'',
               trace_x = [2016, 2017, 2018, 2019, 2020, 2021, 2022, 2023, 2024, 2025],
               trace_y = [3, 7, 0, 0, 0, 0, 0, 0, 0, 0]\<rparr>]"
    by (simp add: create_citations_to_year_chart_def eval_simps)
  from cols have all: "\<forall>k\<in>{2015 + 1..2025}. py_str k \<in> set (columns acme_frame)"
    by (simp only: list_all_iff set_upto)
  from citations_to_year_points[of acme_frame 2015] ev all
  have "int (length [2016, 2017, 2018, 2019, 2020, 2021, 2022, 2023, 2024, 2025 :: int])
       = 2025 - 2015"
    by simp
  with cols yr ev show ?thesis by blast
qed

subsection \<open>A company without rows of the selected year\<close>

lemma company_ids_without:
  "company_ids (without_company frame a) = filter (\<lambda>c. c \<noteq> a) (company_ids frame)"
  using unique_map_filter[of assignee_id "\<lambda>c. c \<noteq> a" "rows frame"]
  by (simp add: company_ids_def without_company_def)

lemma company_rows_without:
  "c \<noteq> a \<Longrightarrow> company_rows (without_company frame a) c = company_rows frame c"
  by (auto simp: company_rows_def without_company_def intro: filter_cong)

lemma citation_trace_without:
  "c \<noteq> a \<Longrightarrow> citation_trace (without_company frame a) y c = citation_trace frame y c"
  by (simp add: citation_trace_def first_organization_def year_rows_def year_labels_def
      company_rows_without)
     (simp add: without_company_def)

lemma year_rows_without:
  "c \<noteq> a \<Longrightarrow> year_rows (without_company frame a) y c = year_rows frame y c"
  by (simp add: year_rows_def company_rows_without)

lemma year_labels_without: "year_labels (without_company frame a) y = year_labels frame y"
  by (simp add: year_labels_def without_company_def)

lemma chart_without:
  assumes "year_rows frame y a = []"
  shows "create_citations_to_year_chart (without_company frame a) y
           = create_citations_to_year_chart frame y"
proof -
  let ?E = "\<lambda>f c. year_rows f y c \<noteq> [] \<and> year_labels f y \<noteq> []"
  have keep: "filter (?E (without_company frame a)) (filter (\<lambda>c. c \<noteq> a) (company_ids frame))
      = filter (?E frame) (company_ids frame)"
    unfolding filter_filter
  proof (rule filter_cong[OF refl])
    fix c
    show "(c \<noteq> a \<and> ?E (without_company frame a) c) = ?E frame c"
      using assms by (cases "c = a") (simp_all add: year_rows_without year_labels_without)
  qed
  have "map (citation_trace (without_company frame a) y) (filter (?E frame) (company_ids frame))
      = map (citation_trace frame y) (filter (?E frame) (company_ids frame))"
  proof (rule map_cong[OF refl])
    fix c
    assume "c \<in> set (filter (?E frame) (company_ids frame))"
    with assms have "c \<noteq> a" by auto
    then show "citation_trace (without_company frame a) y c = citation_trace frame y c"
      by (rule citation_trace_without)
  qed
  then show ?thesis
    by (simp only: create_citations_to_year_chart_eq company_ids_without keep)
qed

text \<open>
  C2. Let a company of the table have no row of the year \<open>y\<close>. Then the chart of
  citations is the chart of the table without that company, so the company contributes
  no series, and the chart has fewer series than the summary has entries; the summary
  has one entry per company and, at the company's position, the entry with its
  organization name and the count 0.
\<close>

theorem omitted_from_chart_listed_in_summary:
  assumes "a \<in> set (unique (map assignee_id (rows df_companies)))"
    and "filter (\<lambda>r. cited_year r = y) (filter (\<lambda>r. assignee_id r = a) (rows df_companies)) = []"
  shows "\<exists>fig info i.
      create_citations_to_year_chart df_companies y = Inr fig
    \<and> create_citations_to_year_chart (without_company df_companies a) y = Inr fig
    \<and> get_patents_in_year df_companies y = Inr info
    \<and> length fig < length info
    \<and> length info = length (unique (map assignee_id (rows df_companies)))
    \<and> i < length info
    \<and> unique (map assignee_id (rows df_companies)) ! i = a
    \<and> info ! i = (first_organization df_companies a, 0)"
proof -
  let ?ids = "company_ids df_companies"
  let ?E = "\<lambda>c. year_rows df_companies y c \<noteq> [] \<and> year_labels df_companies y \<noteq> []"
  let ?fig = "map (citation_trace df_companies y) (filter ?E ?ids)"
  let ?info = "map (\<lambda>c. (first_organization df_companies c,
                  sum_list (map patents_assigned (year_rows df_companies y c)))) ?ids"
  from assms have a: "a \<in> set ?ids" and none: "year_rows df_companies y a = []"
    by (simp_all add: company_ids_def year_rows_def company_rows_def)
  from a obtain i where i: "i < length ?ids" "?ids ! i = a"
    by (auto simp: in_set_conv_nth)
  have chart: "create_citations_to_year_chart df_companies y = Inr ?fig"
    by (rule create_citations_to_year_chart_eq)
  have without: "create_citations_to_year_chart (without_company df_companies a) y = Inr ?fig"
    using chart_without[OF none] chart by simp
  have summary: "get_patents_in_year df_companies y = Inr ?info"
    by (rule get_patents_in_year_eq)
  have fewer: "length ?fig < length ?info"
    using length_filter_less[of a ?ids ?E] a none by simp
  have entry: "?info ! i = (first_organization df_companies a, 0)"
    using i none by simp
  from chart without summary fewer i entry show ?thesis
    unfolding company_ids_def[symmetric]
    by (intro exI[of _ ?fig] exI[of _ ?info] exI[of _ i]) simp
qed

text \<open>
  In \<open>two_frame\<close> Zeta has no row of 2015: the chart of 2015 has the series of Acme
  only, and the summary lists Zeta with 0.
\<close>

theorem omitted_from_chart_listed_in_summary_witness:
  "''ZZZZ'' \<in> set (unique (map assignee_id (rows two_frame)))
   \<and> filter (\<lambda>r. cited_year r = 2015) (filter (\<lambda>r. assignee_id r = ''ZZZZ'') (rows two_frame)) = []
   \<and> create_citations_to_year_chart two_frame 2015
       = Inr [\<lparr>trace_name = ''Acme'', trace_x = [2016, 2017], trace_y = [3, 7]\<rparr>]
   \<and> create_citations_to_year_chart (without_company two_frame ''ZZZZ'') 2015
       = Inr [\<lparr>trace_name = ''Acme'', trace_x = [2016, 2017], trace_y = [3, 7]\<rparr>]
   \<and> get_patents_in_year two_frame 2015 = Inr [(''Zeta'', 0), (''Acme'', 10)]"
proof -
  have present: "''ZZZZ'' \<in> set (unique (map assignee_id (rows two_frame)))"
    by (simp add: eval_simps)
  have none: "filter (\<lambda>r. cited_year r = 2015)
      (filter (\<lambda>r. assignee_id r = ''ZZZZ'') (rows two_frame)) = []"
    by (simp add: eval_simps)
  have chart: "create_citations_to_year_chart two_frame 2015
       = Inr [\<lparr>trace_name = ''Acme'', trace_x = [2016, 2017], trace_y = [3, 7]\<rparr>]"
    by (simp add: create_citations_to_year_chart_def eval_simps)
  have summary: "get_patents_in_year two_frame 2015 = Inr [(''Zeta'', 0), (''Acme'', 10)]"
    by (simp add: get_patents_in_year_def eval_simps)
  from omitted_from_chart_listed_in_summary[OF present none] chart
  have "create_citations_to_year_chart (without_company two_frame ''ZZZZ'') 2015
       = Inr [\<lparr>trace_name = ''Acme'', trace_x = [2016, 2017], trace_y = [3, 7]\<rparr>]"
    by auto
  with present none chart summary show ?thesis by blast
qed

text \<open>
  C9, as stated, fails: in \<open>last_frame\<close> the company has a row of 2016 and no column
  follows 2016, and the chart of 2016 has no series at all, so none that is empty.
\<close>

theorem last_year_counterexample:
  "filter (\<lambda>r. cited_year r = 2016) (rows last_frame) \<noteq> []
   \<and> create_citations_to_year_chart last_frame 2016 = Inr []
   \<and> \<not> (\<exists>fig t. create_citations_to_year_chart last_frame 2016 = Inr fig
            \<and> t \<in> set fig \<and> trace_x t = [] \<and> trace_y t = [])"
proof -
  have ev: "create_citations_to_year_chart last_frame 2016 = Inr []"
    by (simp add: create_citations_to_year_chart_def eval_simps)
  have "filter (\<lambda>r. cited_year r = 2016) (rows last_frame) \<noteq> []"
    by (simp add: eval_simps)
  with ev show ?thesis by simp
qed

text \<open>
  C9, amended. When no year from \<open>y + 1\<close> to 2025 has a column in the table, the
  transform returns a figure without any series: every company, also one with rows of
  the year \<open>y\<close>, is omitted.
\<close>

theorem last_year_no_series:
  "\<forall>k\<in>{y + 1..2025}. py_str k \<notin> set (columns df_companies) \<Longrightarrow>
   create_citations_to_year_chart df_companies y = Inr []"
proof -
  assume "\<forall>k\<in>{y + 1..2025}. py_str k \<notin> set (columns df_companies)"
  then have "year_labels df_companies y = []"
    by (simp add: year_labels_def filter_empty_conv)
  then show ?thesis by (simp add: create_citations_to_year_chart_eq)
qed

theorem last_year_no_series_witness:
  "list_all (\<lambda>k. py_str k \<notin> set (columns last_frame)) [2016 + 1..2025]
   \<and> year_rows last_frame 2016 ''AAAAAAAA1234'' = [acme_2016]
   \<and> create_citations_to_year_chart last_frame 2016 = Inr []"
proof -
  have cols: "list_all (\<lambda>k. py_str k \<notin> set (columns last_frame)) [2016 + 1..2025]"
    by (simp add: eval_simps)
  then have all: "\<forall>k\<in>{2016 + 1..2025}. py_str k \<notin> set (columns last_frame)"
    by (simp only: list_all_iff set_upto)
  have yr: "year_rows last_frame 2016 ''AAAAAAAA1234'' = [acme_2016]"
    by (simp add: year_rows_def company_rows_def last_frame_def acme_2016_def)
  from last_year_no_series[OF all] cols yr show ?thesis by blast
qed

subsection \<open>The names of the series\<close>

lemma first_organization_row:
  "a \<in> set (company_ids frame) \<Longrightarrow>
   \<exists>r rs. filter (\<lambda>r. assignee_id r = a) (rows frame) = r # rs
          \<and> first_organization frame a = raw_assignee_organization r"
proof -
  assume "a \<in> set (company_ids frame)"
  then have "filter (\<lambda>r. assignee_id r = a) (rows frame) \<noteq> []"
    using company_ids_subset[of frame] by (auto simp: filter_empty_conv)
  then show ?thesis
    by (cases "filter (\<lambda>r. assignee_id r = a) (rows frame)")
       (simp_all add: first_organization_def company_rows_def)
qed

lemma display_name_longer: "display_name organization aid \<noteq> organization"
  by (simp add: display_name_def)

lemma company_list_set:
  "set (get_company_list frame)
     = (\<lambda>r. (assignee_id r, display_name (raw_assignee_organization r) (assignee_id r)))
         ` set (rows frame)"
  by (auto simp: get_company_list_def sort_values_def group_keys_set image_iff)

text \<open>
  C8, as stated, fails: the company list labels the company of \<open>acme_frame\<close>
  \<open>Acme (AAAAAAAA...)\<close>, and each of the three transforms names its series \<open>Acme\<close>.
\<close>

theorem series_name_counterexample:
  "get_company_list acme_frame = [(''AAAAAAAA1234'', ''Acme (AAAAAAAA...)'')]
   \<and> create_patents_timeline acme_frame
       = Inr [\<lparr>trace_name = ''Acme'', trace_x = [2015, 2016], trace_y = [10, 8]\<rparr>]
   \<and> create_citations_timeline acme_frame
       = Inr [\<lparr>trace_name = ''Acme'', trace_x = [2015, 2016], trace_y = [5, 2]\<rparr>]
   \<and> (\<exists>fig. create_citations_to_year_chart acme_frame 2015 = Inr fig
          \<and> map trace_name fig = [''Acme''])
   \<and> \<not> (\<exists>fig. create_patents_timeline acme_frame = Inr fig
          \<and> (\<forall>t\<in>set fig. trace_name t \<in> snd ` set (get_company_list acme_frame)))"
proof -
  have l: "get_company_list acme_frame = [(''AAAAAAAA1234'', ''Acme (AAAAAAAA...)'')]"
    by code_simp
  have p: "create_patents_timeline acme_frame
       = Inr [\<lparr>trace_name = ''Acme'', trace_x = [2015, 2016], trace_y = [10, 8]\<rparr>]"
    by (simp add: create_patents_timeline_def sort_values_def groupby_sum_def eval_simps)
  have c: "create_citations_timeline acme_frame
       = Inr [\<lparr>trace_name = ''Acme'', trace_x = [2015, 2016], trace_y = [5, 2]\<rparr>]"
    by (simp add: create_citations_timeline_def sort_values_def groupby_sum_def eval_simps)
  have y: "\<exists>fig. create_citations_to_year_chart acme_frame 2015 = Inr fig
          \<and> map trace_name fig = [''Acme'']"
    by (simp add: create_citations_to_year_chart_def eval_simps)
  have n: "\<not> (\<exists>fig. create_patents_timeline acme_frame = Inr fig
          \<and> (\<forall>t\<in>set fig. trace_name t \<in> snd ` set (get_company_list acme_frame)))"
    by (simp add: l p)
  from l p c y n show ?thesis by blast
qed

text \<open>
  C8, amended. Every series of the three transforms carries the organization name of
  the first row of its company: the timelines name their series so for all companies in
  turn, the chart of citations for the companies it does not omit. For a company whose
  rows all carry one organization name, the company list has exactly one label, that
  name followed by the abbreviated identifier in parentheses, and it differs from the
  name of the series.
\<close>

theorem series_named_by_organization:
  "\<exists>yfig pfig cfig.
      create_citations_to_year_chart df_companies y = Inr yfig
    \<and> create_patents_timeline df_companies = Inr pfig
    \<and> create_citations_timeline df_companies = Inr cfig
    \<and> map trace_name pfig
        = map (first_organization df_companies) (unique (map assignee_id (rows df_companies)))
    \<and> map trace_name cfig
        = map (first_organization df_companies) (unique (map assignee_id (rows df_companies)))
    \<and> map trace_name yfig
        = map (first_organization df_companies)
            (filter (\<lambda>a. year_rows df_companies y a \<noteq> [] \<and> year_labels df_companies y \<noteq> [])
              (unique (map assignee_id (rows df_companies))))
    \<and> (\<forall>a\<in>set (unique (map assignee_id (rows df_companies))).
          (\<exists>r rs. filter (\<lambda>r. assignee_id r = a) (rows df_companies) = r # rs
                 \<and> first_organization df_companies a = raw_assignee_organization r)
          \<and> ((\<forall>r\<in>set (rows df_companies).
                  assignee_id r = a \<longrightarrow>
                  raw_assignee_organization r = first_organization df_companies a) \<longrightarrow>
               (a, first_organization df_companies a @ '' ('' @ take 8 a @ ''...)'')
                 \<in> set (get_company_list df_companies)
             \<and> (\<forall>label. (a, label) \<in> set (get_company_list df_companies) \<longrightarrow>
                   label = first_organization df_companies a @ '' ('' @ take 8 a @ ''...)''
                 \<and> label \<noteq> first_organization df_companies a)))"
proof -
  have names: "map trace_name (map (timeline_trace col df_companies) ids)
      = map (first_organization df_companies) ids" for col ids
    by (simp add: timeline_trace_def comp_def)
  have ynames: "map trace_name (map (citation_trace df_companies y) ids)
      = map (first_organization df_companies) ids" for ids
    by (simp add: citation_trace_def comp_def)
  have catalog: "(a, first_organization df_companies a @ '' ('' @ take 8 a @ ''...)'')
                 \<in> set (get_company_list df_companies)
             \<and> (\<forall>label. (a, label) \<in> set (get_company_list df_companies) \<longrightarrow>
                   label = first_organization df_companies a @ '' ('' @ take 8 a @ ''...)''
                 \<and> label \<noteq> first_organization df_companies a)"
    if a: "a \<in> set (company_ids df_companies)"
      and one: "\<forall>r\<in>set (rows df_companies).
                  assignee_id r = a \<longrightarrow>
                  raw_assignee_organization r = first_organization df_companies a"
    for a
  proof (intro conjI allI impI)
    from a have "a \<in> assignee_id ` set (rows df_companies)"
      using company_ids_subset by blast
    then obtain r where r: "r \<in> set (rows df_companies)" "assignee_id r = a" by auto
    with one have "raw_assignee_organization r = first_organization df_companies a" by blast
    with r show "(a, first_organization df_companies a @ '' ('' @ take 8 a @ ''...)'')
                 \<in> set (get_company_list df_companies)"
      unfolding company_list_set by (auto simp: display_name_def image_iff)
  next
    fix label
    assume "(a, label) \<in> set (get_company_list df_companies)"
    then obtain r where r: "r \<in> set (rows df_companies)" "assignee_id r = a"
      and l: "label = display_name (raw_assignee_organization r) a"
      unfolding company_list_set by auto
    from one r have "raw_assignee_organization r = first_organization df_companies a" by blast
    with l have l': "label = display_name (first_organization df_companies a) a" by simp
    then show "label = first_organization df_companies a @ '' ('' @ take 8 a @ ''...)''"
      by (simp add: display_name_def)
    from l' show "label \<noteq> first_organization df_companies a"
      by (simp add: display_name_longer)
  qed
  have rows: "\<forall>a\<in>set (company_ids df_companies).
          (\<exists>r rs. filter (\<lambda>r. assignee_id r = a) (rows df_companies) = r # rs
                 \<and> first_organization df_companies a = raw_assignee_organization r)
          \<and> ((\<forall>r\<in>set (rows df_companies).
                  assignee_id r = a \<longrightarrow>
                  raw_assignee_organization r = first_organization df_companies a) \<longrightarrow>
               (a, first_organization df_companies a @ '' ('' @ take 8 a @ ''...)'')
                 \<in> set (get_company_list df_companies)
             \<and> (\<forall>label. (a, label) \<in> set (get_company_list df_companies) \<longrightarrow>
                   label = first_organization df_companies a @ '' ('' @ take 8 a @ ''...)''
                 \<and> label \<noteq> first_organization df_companies a))"
  proof (intro ballI conjI impI)
    fix a assume a: "a \<in> set (company_ids df_companies)"
    show "\<exists>r rs. filter (\<lambda>r. assignee_id r = a) (rows df_companies) = r # rs
                 \<and> first_organization df_companies a = raw_assignee_organization r"
      using a by (rule first_organization_row)
    assume one: "\<forall>r\<in>set (rows df_companies).
                  assignee_id r = a \<longrightarrow>
                  raw_assignee_organization r = first_organization df_companies a"
    from catalog[OF a one]
    show "(a, first_organization df_companies a @ '' ('' @ take 8 a @ ''...)'')
                 \<in> set (get_company_list df_companies)"
      and "\<forall>label. (a, label) \<in> set (get_company_list df_companies) \<longrightarrow>
                   label = first_organization df_companies a @ '' ('' @ take 8 a @ ''...)''
                 \<and> label \<noteq> first_organization df_companies a"
      by blast+
  qed
  show ?thesis
    unfolding company_ids_def[symmetric] create_citations_to_year_chart_eq
      create_patents_timeline_eq create_citations_timeline_eq
    using names ynames rows by blast
qed

text \<open>
  In \<open>two_frame\<close> both rows of Zeta carry the name Zeta: the series are named Zeta and
  Acme, and the only label of Zeta in the company list is \<open>Zeta (ZZZZ...)\<close>.
\<close>

theorem series_named_by_organization_witness:
  "(\<exists>yfig. create_citations_to_year_chart two_frame 2015 = Inr yfig
      \<and> map trace_name yfig = [''Acme''])
   \<and> (\<exists>pfig. create_patents_timeline two_frame = Inr pfig
      \<and> map trace_name pfig = [''Zeta'', ''Acme''])
   \<and> (\<exists>cfig. create_citations_timeline two_frame = Inr cfig
      \<and> map trace_name cfig = [''Zeta'', ''Acme''])
   \<and> ''ZZZZ'' \<in> set (unique (map assignee_id (rows two_frame)))
   \<and> map raw_assignee_organization (filter (\<lambda>r. assignee_id r = ''ZZZZ'') (rows two_frame))
       = [''Zeta'', ''Zeta'']
   \<and> (''ZZZZ'', ''Zeta (ZZZZ...)'') \<in> set (get_company_list two_frame)
   \<and> (''ZZZZ'', ''Zeta'') \<notin> set (get_company_list two_frame)"
proof -
  have ids: "unique (map assignee_id (rows two_frame)) = [''ZZZZ'', ''AAAAAAAA1234'']"
    by (simp add: eval_simps)
  have orgs: "first_organization two_frame ''ZZZZ'' = ''Zeta''"
    "first_organization two_frame ''AAAAAAAA1234'' = ''Acme''"
    by (simp_all add: first_organization_def company_rows_def eval_simps)
  have yr: "year_rows two_frame 2015 ''ZZZZ'' = []"
    "year_rows two_frame 2015 ''AAAAAAAA1234'' \<noteq> []"
    by (simp_all add: year_rows_def company_rows_def eval_simps)
  have lab: "year_labels two_frame 2015 \<noteq> []"
    by (simp add: year_labels_def eval_simps)
  have zeta: "map raw_assignee_organization
      (filter (\<lambda>r. assignee_id r = ''ZZZZ'') (rows two_frame)) = [''Zeta'', ''Zeta'']"
    by (simp add: eval_simps)
  have one: "\<forall>r\<in>set (rows two_frame).
      assignee_id r = ''ZZZZ'' \<longrightarrow>
      raw_assignee_organization r = first_organization two_frame ''ZZZZ''"
    by (simp add: orgs) (simp add: eval_simps)
  note main = series_named_by_organization[of two_frame 2015]
  from main have figs: "\<exists>yfig pfig cfig.
      create_citations_to_year_chart two_frame 2015 = Inr yfig
    \<and> create_patents_timeline two_frame = Inr pfig
    \<and> create_citations_timeline two_frame = Inr cfig
    \<and> map trace_name pfig
        = map (first_organization two_frame) (unique (map assignee_id (rows two_frame)))
    \<and> map trace_name cfig
        = map (first_organization two_frame) (unique (map assignee_id (rows two_frame)))
    \<and> map trace_name yfig
        = map (first_organization two_frame)
            (filter (\<lambda>a. year_rows two_frame 2015 a \<noteq> [] \<and> year_labels two_frame 2015 \<noteq> [])
              (unique (map assignee_id (rows two_frame))))"
    by blast
  have zin: "''ZZZZ'' \<in> set (unique (map assignee_id (rows two_frame)))"
    by (simp add: ids)
  from main zin have cat: "(\<forall>r\<in>set (rows two_frame).
              assignee_id r = ''ZZZZ'' \<longrightarrow>
              raw_assignee_organization r = first_organization two_frame ''ZZZZ'') \<longrightarrow>
          (''ZZZZ'', first_organization two_frame ''ZZZZ'' @ '' ('' @ take 8 ''ZZZZ'' @ ''...)'')
             \<in> set (get_company_list two_frame)
          \<and> (\<forall>label. (''ZZZZ'', label) \<in> set (get_company_list two_frame) \<longrightarrow>
               label = first_organization two_frame ''ZZZZ'' @ '' ('' @ take 8 ''ZZZZ'' @ ''...)''
             \<and> label \<noteq> first_organization two_frame ''ZZZZ'')"
    by blast
  from cat one
  have "(''ZZZZ'', first_organization two_frame ''ZZZZ'' @ '' ('' @ take 8 ''ZZZZ'' @ ''...)'')
             \<in> set (get_company_list two_frame)"
    and diff: "\<forall>label. (''ZZZZ'', label) \<in> set (get_company_list two_frame) \<longrightarrow>
               label \<noteq> first_organization two_frame ''ZZZZ''"
    by blast+
  then have z: "(''ZZZZ'', ''Zeta (ZZZZ...)'') \<in> set (get_company_list two_frame)"
    by (simp add: orgs)
  from diff have nz: "(''ZZZZ'', ''Zeta'') \<notin> set (get_company_list two_frame)"
    unfolding orgs by blast
  from figs have three: "(\<exists>yfig. create_citations_to_year_chart two_frame 2015 = Inr yfig
      \<and> map trace_name yfig = [''Acme''])
   \<and> (\<exists>pfig. create_patents_timeline two_frame = Inr pfig
      \<and> map trace_name pfig = [''Zeta'', ''Acme''])
   \<and> (\<exists>cfig. create_citations_timeline two_frame = Inr cfig
      \<and> map trace_name cfig = [''Zeta'', ''Acme''])"
    by (auto simp: ids orgs yr lab)
  from three zin zeta z nz show ?thesis by blast
qed

subsection \<open>A selected company without rows\<close>

lemma isin_removeAll:
  "a \<notin> assignee_id ` set (rows frame) \<Longrightarrow>
   isin_assignee_id frame (removeAll a ids) = isin_assignee_id frame ids"
  by (auto simp: isin_assignee_id_def intro: filter_cong)

lemma company_ids_isin:
  "company_ids (isin_assignee_id frame ids) = filter (\<lambda>c. c \<in> set ids) (company_ids frame)"
  using unique_map_filter[of assignee_id "\<lambda>c. c \<in> set ids" "rows frame"]
  by (simp add: company_ids_def isin_assignee_id_def)

lemma company_rows_isin:
  "c \<in> set ids \<Longrightarrow> company_rows (isin_assignee_id frame ids) c = company_rows frame c"
  by (auto simp: company_rows_def isin_assignee_id_def intro: filter_cong)

lemma isin_none:
  "set ids \<inter> assignee_id ` set (rows frame) = {} \<Longrightarrow> rows (isin_assignee_id frame ids) = []"
  by (auto simp: isin_assignee_id_def filter_empty_conv)

lemma reports_of_no_rows:
  assumes "rows frame = []"
  shows "get_patents_in_year frame y = Inr []"
    and "create_citations_to_year_chart frame y = Inr []"
    and "create_patents_timeline frame = Inr []"
    and "create_citations_timeline frame = Inr []"
  using assms
  by (simp_all add: get_patents_in_year_def create_citations_to_year_chart_def
      create_patents_timeline_def create_citations_timeline_def unique_def)

text \<open>
  C10. Let a selected identifier have no row in the table. Then the rows that the
  callback keeps are those it keeps without that identifier in the selection, and the
  identifier is not among the companies of the kept rows. The summary has one entry for
  each company of the table that is selected, in the order of the table, so none for
  the identifier; and the callback returns what it returns for the selection without
  the identifier, as long as that selection is not empty. When no selected identifier
  has a row, the summary is empty and so is the figure of each of the three tabs.
\<close>

theorem recordless_company_absent:
  assumes "a \<in> set ids" and "a \<notin> assignee_id ` set (rows (df g))"
  shows "isin_assignee_id (df g) ids = isin_assignee_id (df g) (removeAll a ids)
    \<and> a \<notin> set (unique (map assignee_id (rows (isin_assignee_id (df g) ids))))
    \<and> get_patents_in_year (isin_assignee_id (df g) ids) y
        = Inr (map (\<lambda>c. (first_organization (df g) c,
                       sum_list (map patents_assigned
                         (filter (\<lambda>r. cited_year r = y)
                           (filter (\<lambda>r. assignee_id r = c) (rows (df g)))))))
               (filter (\<lambda>c. c \<in> set ids) (unique (map assignee_id (rows (df g))))))
    \<and> (removeAll a ids \<noteq> [] \<longrightarrow>
          update_dashboard g (Some ids) selected_year active_tab
            = update_dashboard g (Some (removeAll a ids)) selected_year active_tab)
    \<and> (set ids \<inter> assignee_id ` set (rows (df g)) = {} \<and> y \<noteq> 0
          \<and> ''assignee_id'' \<in> set (columns (df g)) \<longrightarrow>
          update_dashboard g (Some ids) (Some y) active_tab
            = Inr (Summary y [],
                   if active_tab \<in> {''citations-to-year'', ''patents-timeline'',
                                      ''citations-timeline''}
                   then Graph [] else Text []))"
proof (intro conjI impI)
  from assms(1) have ne: "ids \<noteq> []" by auto
  show same: "isin_assignee_id (df g) ids = isin_assignee_id (df g) (removeAll a ids)"
    using isin_removeAll[OF assms(2)] by simp
  show "a \<notin> set (unique (map assignee_id (rows (isin_assignee_id (df g) ids))))"
    using assms(2) by (auto simp: set_unique isin_assignee_id_def)
  have entry: "(first_organization (isin_assignee_id (df g) ids) c,
        sum_list (map patents_assigned (year_rows (isin_assignee_id (df g) ids) y c)))
      = (first_organization (df g) c,
         sum_list (map patents_assigned
           (filter (\<lambda>r. cited_year r = y) (filter (\<lambda>r. assignee_id r = c) (rows (df g))))))"
    if "c \<in> set ids" for c
    using company_rows_isin[OF that, of "df g"]
    by (simp add: first_organization_def year_rows_def) (simp add: company_rows_def)
  show "get_patents_in_year (isin_assignee_id (df g) ids) y
        = Inr (map (\<lambda>c. (first_organization (df g) c,
                       sum_list (map patents_assigned
                         (filter (\<lambda>r. cited_year r = y)
                           (filter (\<lambda>r. assignee_id r = c) (rows (df g)))))))
               (filter (\<lambda>c. c \<in> set ids) (unique (map assignee_id (rows (df g))))))"
    unfolding get_patents_in_year_eq company_ids_isin company_ids_def[symmetric]
    using entry by (auto intro: map_cong)
  show "update_dashboard g (Some ids) selected_year active_tab
          = update_dashboard g (Some (removeAll a ids)) selected_year active_tab"
    if "removeAll a ids \<noteq> []"
    using that ne by (cases selected_year) (simp_all add: update_dashboard_def same)
  show "update_dashboard g (Some ids) (Some y) active_tab
          = Inr (Summary y [],
                 if active_tab \<in> {''citations-to-year'', ''patents-timeline'',
                                    ''citations-timeline''}
                 then Graph [] else Text [])"
    if h: "set ids \<inter> assignee_id ` set (rows (df g)) = {} \<and> y \<noteq> 0
          \<and> ''assignee_id'' \<in> set (columns (df g))"
  proof -
    from h have "rows (isin_assignee_id (df g) ids) = []" by (simp add: isin_none)
    note empty = reports_of_no_rows[OF this]
    from h ne show ?thesis
      by (simp add: update_dashboard_def empty)
  qed
qed

text \<open>
  The selection of Zeta and of an identifier that is not in \<open>two_frame\<close>: the summary
  and the timeline hold Zeta only, as for the selection of Zeta alone.
\<close>

theorem recordless_company_absent_witness:
  "''NONE'' \<in> set [''ZZZZ'', ''NONE'']
   \<and> ''NONE'' \<notin> assignee_id ` set (rows two_frame)
   \<and> removeAll ''NONE'' [''ZZZZ'', ''NONE''] = [''ZZZZ'']
   \<and> update_dashboard \<lparr>df = two_frame, companies = [], available_years = [2015, 2016]\<rparr>
        (Some [''ZZZZ'']) (Some 2016) ''patents-timeline''
       = Inr (Summary 2016 [(''Zeta'', 10)],
              Graph [\<lparr>trace_name = ''Zeta'', trace_x = [2016], trace_y = [10]\<rparr>])
   \<and> update_dashboard \<lparr>df = two_frame, companies = [], available_years = [2015, 2016]\<rparr>
        (Some [''ZZZZ'', ''NONE'']) (Some 2016) ''patents-timeline''
       = Inr (Summary 2016 [(''Zeta'', 10)],
              Graph [\<lparr>trace_name = ''Zeta'', trace_x = [2016], trace_y = [10]\<rparr>])"
proof -
  let ?g = "\<lparr>df = two_frame, companies = [], available_years = [2015, 2016]\<rparr>"
  have sel: "''NONE'' \<in> set [''ZZZZ'', ''NONE'']" by simp
  have none: "''NONE'' \<notin> assignee_id ` set (rows (df ?g))"
    by (simp add: eval_simps)
  have rest: "removeAll ''NONE'' [''ZZZZ'', ''NONE''] = [''ZZZZ'']" by simp
  have alone: "update_dashboard ?g (Some [''ZZZZ'']) (Some 2016) ''patents-timeline''
       = Inr (Summary 2016 [(''Zeta'', 10)],
              Graph [\<lparr>trace_name = ''Zeta'', trace_x = [2016], trace_y = [10]\<rparr>])"
    by (simp add: update_dashboard_def isin_assignee_id_def get_patents_in_year_def
        create_patents_timeline_def sort_values_def groupby_sum_def eval_simps)
  from recordless_company_absent[OF sel none, where selected_year = "Some 2016"
      and active_tab = "''patents-timeline''"] rest
  have "update_dashboard ?g (Some [''ZZZZ'', ''NONE'']) (Some 2016) ''patents-timeline''
      = update_dashboard ?g (Some [''ZZZZ'']) (Some 2016) ''patents-timeline''"
    by simp
  with alone sel none rest show ?thesis by simp
qed

end
